theory Spec2Isabelle
  imports Complex_Main "HOL-Library.FSet" "HOL-Library.List_Lexorder" "HOL-Library.Char_ord"
begin

section \<open>roofig: the parameter collection and the curve sampler\<close>

text \<open>
  A shallow embedding of \<^verbatim>\<open>src/roofig/__init__.py\<close>: the class \<^verbatim>\<open>FitParameters\<close>
  (a namespace of fit parameters kept in the instance's attributes and in the set
  \<^verbatim>\<open>param_list\<close>) and \<^verbatim>\<open>Plotter.sample_pdf\<close>.

  Python objects have identity, and several properties are about identity (an entity
  updated in place against an entity replaced), so the engine's objects live in a store
  indexed by addresses and a Python value that denotes one of them is a reference.
  Python \<^verbatim>\<open>int\<close> is \<open>int\<close>; Python \<^verbatim>\<open>float\<close> and the engine's doubles are \<open>real\<close>, that
  is exact arithmetic; only the entries of the array that numpy normalises, which may
  be non-finite, have a type of their own. An exception is a value \<open>Inl e\<close> of the
  result.
\<close>

subsection \<open>Values and errors\<close>

datatype py_error =
    ConfigurationError
  | AttributeError
  | TypeError
  | ValueError
  | KeyError
  | IndexError
  | RecursionError
  | Unsupported

text \<open>
  \<open>Unsupported\<close> is no Python exception: it marks the inputs on which this model makes
  no statement, so that no property is proved of them. These are: the assignment of a
  new value to \<^verbatim>\<open>param_list\<close> itself and its removal by \<^verbatim>\<open>pop\<close>, after which the instance
  has no set of tracked names; the assignment to a name of the form \<^verbatim>\<open>__x__\<close> that is not
  listed below, because the attributes of \<^verbatim>\<open>object\<close> and of a class differ between
  versions of Python; a replacement field of \<^verbatim>\<open>str.format\<close> whose text is not computed
  here (a conversion, a format specification, an attribute or an index of the
  argument, or an argument whose \<^verbatim>\<open>str\<close> depends on the formatting of floats or on an
  object's \<^verbatim>\<open>repr\<close>). An error result does not carry the state that the exception
  leaves behind.
\<close>

text \<open>
  The values an attribute of the collection can hold. \<open>PRealVar a\<close> is an instance of the
  wrapper class \<^verbatim>\<open>FitParameters.RealVar\<close> whose field \<^verbatim>\<open>var\<close> is the engine variable at
  address \<open>a\<close>; \<open>PRooRealVar a\<close> is that engine variable itself; \<open>PRooCategory c\<close> is the
  engine category at address \<open>c\<close>; \<open>PNumpy x\<close> is a numpy scalar (\<^verbatim>\<open>np.float64\<close>, \<^verbatim>\<open>np.int64\<close>),
  a number whose type is neither \<^verbatim>\<open>int\<close> nor \<^verbatim>\<open>float\<close>; \<open>PObject i\<close> is any other object,
  which is no number, no class and no dictionary, and has none of the engine's methods.
\<close>

datatype pyval =
    PInt int
  | PFloat real
  | PStr string
  | PNone
  | PRealVar nat
  | PRooRealVar nat
  | PRooCategory nat
  | PNumpy real
  | PObject nat

text \<open>\<^verbatim>\<open>type(value) in [int, float]\<close>: the exact types, nothing else.\<close>

fun is_int_or_float :: "pyval \<Rightarrow> bool" where
  "is_int_or_float (PInt i) = True"
| "is_int_or_float (PFloat x) = True"
| "is_int_or_float v = False"

text \<open>
  The double that a method of the engine receives for a number; what is not a number
  is rejected by the call.
\<close>

fun as_double :: "pyval \<Rightarrow> real option" where
  "as_double (PInt i) = Some (of_int i)"
| "as_double (PFloat x) = Some x"
| "as_double (PNumpy x) = Some x"
| "as_double v = None"

subsection \<open>The fit engine's primitives\<close>

text \<open>
  \<^verbatim>\<open>RooRealVar\<close> and \<^verbatim>\<open>RooCategory\<close> are imported from the external fit engine (ROOT), so
  they are modelled from its interface as the specification describes it: a scalar
  variable constructible from \<open>(name, title, value)\<close>, \<open>(name, title, min, max)\<close> or
  \<open>(name, title, value, min, max)\<close>, each with an optional unit, with getters and setters
  for value, bounds and constancy; a category constructible from \<open>(name, title)\<close> with
  an operation that defines a level. A variable built from a value alone is constant
  and unbounded; the engine writes an absent bound as \<open>\<plusminus>10\<^sup>3\<^sup>0\<close>. The engine's range
  checks on \<^verbatim>\<open>setVal\<close> are not part of this model.
\<close>

record roo_real_var =
  rname :: string
  rtitle :: string
  rval :: real
  rmin :: real
  rmax :: real
  runit :: string
  rconstant :: bool

record roo_category =
  cname :: string
  ctitle :: string
  ctypes :: "(string \<times> int) list"
  cconstant :: bool

definition roo_infinity :: real where
  "roo_infinity = 10 ^ 30"

definition mk_value_var :: "string \<Rightarrow> string \<Rightarrow> real \<Rightarrow> string \<Rightarrow> roo_real_var" where
  "mk_value_var n t v u =
     \<lparr>rname = n, rtitle = t, rval = v, rmin = - roo_infinity, rmax = roo_infinity,
      runit = u, rconstant = True\<rparr>"

definition mk_range_var :: "string \<Rightarrow> string \<Rightarrow> real \<Rightarrow> real \<Rightarrow> string \<Rightarrow> roo_real_var" where
  "mk_range_var n t lo hi u =
     \<lparr>rname = n, rtitle = t, rval = (lo + hi) / 2, rmin = lo, rmax = hi,
      runit = u, rconstant = False\<rparr>"

definition mk_full_var ::
  "string \<Rightarrow> string \<Rightarrow> real \<Rightarrow> real \<Rightarrow> real \<Rightarrow> string \<Rightarrow> roo_real_var" where
  "mk_full_var n t v lo hi u =
     \<lparr>rname = n, rtitle = t, rval = v, rmin = lo, rmax = hi,
      runit = u, rconstant = False\<rparr>"

text \<open>
  The constructor call \<^verbatim>\<open>RooRealVar(name, title, *rest)\<close>: the overload is chosen by the
  number and the types of the remaining arguments, and a call that matches none of them
  is rejected with a \<^verbatim>\<open>TypeError\<close>.
\<close>

definition split_unit :: "pyval list \<Rightarrow> pyval list \<times> string" where
  "split_unit rest =
     (if rest = [] then ([], [])
      else (case last rest of
              PStr u \<Rightarrow> (butlast rest, u)
            | _ \<Rightarrow> (rest, [])))"

definition RooRealVar :: "string \<Rightarrow> string \<Rightarrow> pyval list \<Rightarrow> py_error + roo_real_var" where
  "RooRealVar n t rest =
     (let (nums, u) = split_unit rest in
      if list_all (\<lambda>a. as_double a \<noteq> None) nums then
        (case map (\<lambda>a. the (as_double a)) nums of
           [v] \<Rightarrow> Inr (mk_value_var n t v u)
         | [lo, hi] \<Rightarrow> Inr (mk_range_var n t lo hi u)
         | [v, lo, hi] \<Rightarrow> Inr (mk_full_var n t v lo hi u)
         | _ \<Rightarrow> Inl TypeError)
      else Inl TypeError)"

definition setVal :: "real \<Rightarrow> roo_real_var \<Rightarrow> roo_real_var" where
  "setVal v rv = rv\<lparr>rval := v\<rparr>"

definition getVal :: "roo_real_var \<Rightarrow> real" where
  "getVal rv = rval rv"

definition getMin :: "roo_real_var \<Rightarrow> real" where
  "getMin rv = rmin rv"

definition getMax :: "roo_real_var \<Rightarrow> real" where
  "getMax rv = rmax rv"

definition isConstant :: "roo_real_var \<Rightarrow> bool" where
  "isConstant rv = rconstant rv"

definition RooCategory :: "string \<Rightarrow> string \<Rightarrow> roo_category" where
  "RooCategory n t = \<lparr>cname = n, ctitle = t, ctypes = [], cconstant = False\<rparr>"

definition defineType :: "string \<Rightarrow> int \<Rightarrow> roo_category \<Rightarrow> roo_category" where
  "defineType label code cat = cat\<lparr>ctypes := ctypes cat @ [(label, code)]\<rparr>"

subsection \<open>The collection\<close>

text \<open>
  The state of one \<^verbatim>\<open>FitParameters\<close> instance and of the objects it refers to:
  \<open>param_list\<close> is the set \<^verbatim>\<open>self.param_list\<close>; \<open>attrs\<close> is the rest of the instance's
  attribute dictionary; \<open>realvars\<close> and \<open>categories\<close> are the stores of engine objects,
  of which the addresses below \<open>next_addr\<close> are allocated; \<open>out\<close> is what has been
  printed, one entry per \<^verbatim>\<open>print\<close>. The instance's dictionary is \<open>attrs\<close> together with
  the entry \<^verbatim>\<open>param_list\<close>; in a state that the operations below reach, \<open>attrs\<close> holds
  neither \<^verbatim>\<open>param_list\<close> nor \<^verbatim>\<open>r\<close> nor \<^verbatim>\<open>__class__\<close>, \<^verbatim>\<open>__dict__\<close>, \<^verbatim>\<open>__weakref__\<close>.
\<close>

record fit_parameters =
  param_list :: "string fset"
  attrs :: "string \<rightharpoonup> pyval"
  realvars :: "nat \<Rightarrow> roo_real_var"
  categories :: "nat \<Rightarrow> roo_category"
  next_addr :: nat
  out :: "string list"

definition init :: fit_parameters where
  "init =
     \<lparr>param_list = {||}, attrs = Map.empty,
      realvars = (\<lambda>a. mk_value_var [] [] 0 []),
      categories = (\<lambda>a. RooCategory [] []),
      next_addr = 0, out = []\<rparr>"

definition override_warning :: "string \<Rightarrow> string" where
  "override_warning name = ''warning: overriding \"'' @ name @ ''\"''"

text \<open>
  The names that \<^verbatim>\<open>hasattr\<close> finds on every instance although its dictionary does not
  hold them, and that an instance attribute may shadow: the class \<^verbatim>\<open>RealVar\<close> and the
  methods defined in the body of \<^verbatim>\<open>FitParameters\<close>, \<^verbatim>\<open>__module__\<close> and \<^verbatim>\<open>__doc__\<close>, and the
  methods that every version of \<^verbatim>\<open>object\<close> has. None of these values has a \<^verbatim>\<open>setVal\<close>.
\<close>

definition class_attributes :: "string list" where
  "class_attributes =
     [''RealVar'', ''add_param'', ''expand_params'', ''add_observable'', ''add_category'',
      ''pop'', ''glob'', ''__init__'', ''__setattr__'', ''__repr__'', ''__module__'',
      ''__doc__'', ''__delattr__'', ''__dir__'', ''__eq__'', ''__format__'', ''__ge__'',
      ''__getattribute__'', ''__gt__'', ''__hash__'', ''__init_subclass__'', ''__le__'',
      ''__lt__'', ''__ne__'', ''__new__'', ''__reduce__'', ''__reduce_ex__'', ''__sizeof__'',
      ''__str__'', ''__subclasshook__'']"

definition is_dunder :: "string \<Rightarrow> bool" where
  "is_dunder name =
     (4 < length name \<and> take 2 name = ''__'' \<and> drop (length name - 2) name = ''__'')"

text \<open>
  \<open>assignable name\<close>: the assignment of a wrapper or a category to the name rebinds the
  name, whatever the instance holds. It fails for the property \<^verbatim>\<open>r\<close>, which has no
  setter, and for \<^verbatim>\<open>__class__\<close>, \<^verbatim>\<open>__dict__\<close> and \<^verbatim>\<open>__weakref__\<close>; it destroys the set of
  tracked names for \<^verbatim>\<open>param_list\<close>; the other names of the form \<^verbatim>\<open>__x__\<close> are left out
  with them.
\<close>

definition assignable :: "string \<Rightarrow> bool" where
  "assignable name =
     (name \<noteq> ''r'' \<and> name \<noteq> ''param_list'' \<and>
      (is_dunder name \<longrightarrow> name \<in> set class_attributes))"

text \<open>
  \<^verbatim>\<open>__setattr__\<close>. On a name that is already an attribute, an \<^verbatim>\<open>int\<close> or a \<^verbatim>\<open>float\<close> is
  handed to the \<^verbatim>\<open>setVal\<close> of the stored object and nothing is rebound; the wrapper
  forwards \<^verbatim>\<open>setVal\<close> to its variable, a bare variable has it, and every other stored
  object lacks it. Any other value prints the warning and rebinds the name.

  When the instance's dictionary does not hold the name, \<^verbatim>\<open>hasattr\<close> still looks at the
  class:
  \<^item> \<^verbatim>\<open>r\<close> is the property; \<^verbatim>\<open>hasattr\<close> runs it, and it reads every tracked name with
    \<^verbatim>\<open>getattr\<close>: when \<^verbatim>\<open>r\<close> is tracked itself it calls itself without end, which is a
    \<^verbatim>\<open>RecursionError\<close>; otherwise the assignment ends in an \<^verbatim>\<open>AttributeError\<close> on every
    path, since the exported object has no \<^verbatim>\<open>setVal\<close> and the property has no setter;
  \<^item> \<^verbatim>\<open>param_list\<close> is the set: it has no \<^verbatim>\<open>setVal\<close>, and any other value replaces it;
  \<^item> \<^verbatim>\<open>__class__\<close> and \<^verbatim>\<open>__dict__\<close> accept only a class and a dictionary, \<^verbatim>\<open>__weakref__\<close>
    cannot be written;
  \<^item> a name in \<open>class_attributes\<close> is found, so that a number is an \<^verbatim>\<open>AttributeError\<close>
    and any other value prints the warning before it is stored;
  \<^item> any other name is new and is stored without a warning.
\<close>

definition setattr :: "fit_parameters \<Rightarrow> string \<Rightarrow> pyval \<Rightarrow> py_error + fit_parameters" where
  "setattr s name v =
     (case attrs s name of
        Some cur \<Rightarrow>
          (if is_int_or_float v then
             (case cur of
                PRealVar a \<Rightarrow>
                  Inr (s\<lparr>realvars := (realvars s)(a := setVal (the (as_double v)) (realvars s a))\<rparr>)
              | PRooRealVar a \<Rightarrow>
                  Inr (s\<lparr>realvars := (realvars s)(a := setVal (the (as_double v)) (realvars s a))\<rparr>)
              | _ \<Rightarrow> Inl AttributeError)
           else
             Inr (s\<lparr>out := out s @ [override_warning name], attrs := (attrs s)(name \<mapsto> v)\<rparr>))
      | None \<Rightarrow>
          (if name = ''r'' then
             (if ''r'' |\<in>| param_list s then Inl RecursionError else Inl AttributeError)
           else if name = ''param_list'' then
             (if is_int_or_float v then Inl AttributeError else Inl Unsupported)
           else if name = ''__class__'' \<or> name = ''__dict__'' then
             (if is_int_or_float v then Inl AttributeError else Inl TypeError)
           else if name = ''__weakref__'' then Inl AttributeError
           else if name \<in> set class_attributes then
             (if is_int_or_float v then Inl AttributeError
              else Inr (s\<lparr>out := out s @ [override_warning name],
                          attrs := (attrs s)(name \<mapsto> v)\<rparr>))
           else if is_dunder name then Inl Unsupported
           else Inr (s\<lparr>attrs := (attrs s)(name \<mapsto> v)\<rparr>)))"

text \<open>
  \<^verbatim>\<open>add_param\<close>: the wrapper and its variable are built first (a rejected constructor
  call leaves the collection untouched), then the name is tracked, then the wrapper is
  assigned to the attribute through \<^verbatim>\<open>__setattr__\<close>.
\<close>

definition add_param :: "fit_parameters \<Rightarrow> string \<Rightarrow> pyval list \<Rightarrow> py_error + fit_parameters" where
  "add_param s name args =
     (case RooRealVar name name args of
        Inl e \<Rightarrow> Inl e
      | Inr var \<Rightarrow>
          (let a = next_addr s;
               s1 = s\<lparr>realvars := (realvars s)(a := var), next_addr := Suc a\<rparr>;
               s2 = s1\<lparr>param_list := finsert name (param_list s1)\<rparr>
           in setattr s2 name (PRealVar a)))"


subsection \<open>Bulk creation\<close>

text \<open>
  \<^verbatim>\<open>itertools.product\<close>: the tuples of the Cartesian product, the rightmost sequence
  advancing first; the product of no sequence at all is the one empty tuple.
\<close>

fun itertools_product :: "'a list list \<Rightarrow> 'a list list" where
  "itertools_product [] = [[]]"
| "itertools_product (xs # xss) =
     concat (map (\<lambda>x. map (\<lambda>c. x # c) (itertools_product xss)) xs)"



subsection \<open>Formatting names\<close>

fun show_nat :: "nat \<Rightarrow> string" where
  "show_nat n =
     (if n < 10 then [''0123456789'' ! n]
      else show_nat (n div 10) @ [''0123456789'' ! (n mod 10)])"

definition show_int :: "int \<Rightarrow> string" where
  "show_int i = (if i < 0 then CHR ''-'' # show_nat (nat (- i)) else show_nat (nat i))"







subsection \<open>Observables and categories\<close>




text \<open>
  \<^verbatim>\<open>pd.unique\<close> keeps the first occurrence of each value, in order of appearance.
\<close>

fun pd_unique :: "'a list \<Rightarrow> 'a list" where
  "pd_unique [] = []"
| "pd_unique (v # vs) = v # filter (\<lambda>w. w \<noteq> v) (pd_unique vs)"

text \<open>\<^verbatim>\<open>add_category\<close> on a sample of integers: the label is the decimal text of the code.\<close>

definition add_category :: "fit_parameters \<Rightarrow> string \<Rightarrow> int list \<Rightarrow> py_error + fit_parameters" where
  "add_category s name values =
     (let cat = fold (\<lambda>val c. defineType (show_int val) val c) (pd_unique values)
                  (RooCategory name name);
          a = next_addr s;
          s1 = s\<lparr>categories := (categories s)(a := cat), next_addr := Suc a\<rparr>;
          s2 = s1\<lparr>param_list := finsert name (param_list s1)\<rparr>
      in setattr s2 name (PRooCategory a))"

subsection \<open>Export and rendering\<close>

text \<open>
  The property \<^verbatim>\<open>r\<close>: a fresh object that receives one attribute per tracked name whose
  stored value is a wrapper (the attribute is the wrapper's variable) or a category
  (the attribute is the category); a tracked name with any other stored value is
  passed over, and a tracked name with no stored value stops the loop with the
  \<^verbatim>\<open>AttributeError\<close> of \<^verbatim>\<open>getattr\<close>. The object is the map from its attribute names
  to their values. Python leaves the order in which a set is iterated open; the
  names are visited in sorted order here.
\<close>

fun r_loop ::
  "fit_parameters \<Rightarrow> string list \<Rightarrow> (string \<rightharpoonup> pyval) \<Rightarrow> py_error + (string \<rightharpoonup> pyval)" where
  "r_loop s [] params = Inr params"
| "r_loop s (name # names) params =
     (case attrs s name of
        None \<Rightarrow> Inl AttributeError
      | Some param \<Rightarrow>
          (case param of
             PRealVar a \<Rightarrow> r_loop s names (params(name \<mapsto> PRooRealVar a))
           | PRooCategory c \<Rightarrow> r_loop s names (params(name \<mapsto> PRooCategory c))
           | _ \<Rightarrow> r_loop s names params))"

definition r :: "fit_parameters \<Rightarrow> py_error + (string \<rightharpoonup> pyval)" where
  "r s = r_loop s (sorted_list_of_fset (param_list s)) Map.empty"

text \<open>
  \<^verbatim>\<open>__repr__\<close>. \<open>g2 x\<close> stands for the text of \<^verbatim>\<open>f'{x:.2g}'\<close>. The test for the bounds is
  \<^verbatim>\<open>type(parameter) == RooRealVar\<close>: it holds of a bare engine variable and not of the
  wrapper that \<^verbatim>\<open>add_param\<close> stores. A stored value without \<^verbatim>\<open>isConstant\<close> raises.
\<close>

definition newline :: string where
  "newline = [CHR 0x0A]"

definition tab :: string where
  "tab = [CHR 0x09]"

definition repr_entry :: "(real \<Rightarrow> string) \<Rightarrow> fit_parameters \<Rightarrow> string \<Rightarrow> py_error + string" where
  "repr_entry g2 s p =
     (case attrs s p of
        None \<Rightarrow> Inl AttributeError
      | Some parameter \<Rightarrow>
          (case parameter of
             PRealVar a \<Rightarrow>
               Inr (newline @ p @
                    (if isConstant (realvars s a) then tab @ ''const'' else []))
           | PRooRealVar a \<Rightarrow>
               Inr (newline @ p @
                    (if isConstant (realvars s a) then tab @ ''const''
                     else tab @ g2 (getMin (realvars s a)) @ tab @ g2 (getMax (realvars s a))))
           | PRooCategory c \<Rightarrow>
               Inr (newline @ p @
                    (if cconstant (categories s c) then tab @ ''const'' else []))
           | _ \<Rightarrow> Inl AttributeError))"

fun repr_loop ::
  "(real \<Rightarrow> string) \<Rightarrow> fit_parameters \<Rightarrow> string list \<Rightarrow> string \<Rightarrow> py_error + string" where
  "repr_loop g2 s [] string = Inr string"
| "repr_loop g2 s (p # ps) string =
     (case repr_entry g2 s p of
        Inl e \<Rightarrow> Inl e
      | Inr entry \<Rightarrow> repr_loop g2 s ps (string @ entry))"

definition repr :: "(real \<Rightarrow> string) \<Rightarrow> fit_parameters \<Rightarrow> py_error + string" where
  "repr g2 s =
     repr_loop g2 s (sorted_list_of_fset (param_list s))
       (''Parameter collection'' @ newline @ show_nat (fcard (param_list s)) @ '' parameters:'')"

subsection \<open>The curve sampler\<close>

text \<open>
  \<^verbatim>\<open>np.linspace(start, stop, num)\<close>: \<open>num\<close> evenly spaced points with both ends; a negative
  \<open>num\<close> is a \<^verbatim>\<open>ValueError\<close>.
\<close>

definition np_linspace :: "real \<Rightarrow> real \<Rightarrow> int \<Rightarrow> py_error + real list" where
  "np_linspace start stop num =
     (if num < 0 then Inl ValueError
      else if num = 1 then Inr [start]
      else Inr (map (\<lambda>i. start + real i * ((stop - start) / real (nat num - 1)))
                  [0 ..< nat num]))"

text \<open>\<^verbatim>\<open>trapz(y, x)\<close>: the trapezoidal rule; fewer than two points enclose no area.\<close>

fun trapz :: "real list \<Rightarrow> real list \<Rightarrow> real" where
  "trapz (y1 # y2 # ys) (x1 # x2 # xs) =
     (x2 - x1) * (y1 + y2) / 2 + trapz (y2 # ys) (x2 # xs)"
| "trapz ys xs = 0"

text \<open>
  An entry of a numpy array of doubles. numpy does not raise on a division by zero or
  on an overflow: it warns and stores a non-finite entry, \<^verbatim>\<open>nan\<close> for \<open>0 / 0\<close> and an
  infinity otherwise, whose sign is not modelled. A real result is stored as a double
  when its absolute value is below \<open>2\<^sup>1\<^sup>0\<^sup>2\<^sup>4 - 2\<^sup>9\<^sup>7\<^sup>0\<close>, the least magnitude that rounds to an
  infinity. The rounding of a finite result to the nearest double is not modelled: a
  finite entry is the exact real.
\<close>

datatype npfloat = Finite real | Infinite | NaN

definition float64_overflow :: real where
  "float64_overflow = 2 ^ 1024 - 2 ^ 970"

definition np_float64 :: "real \<Rightarrow> npfloat" where
  "np_float64 x = (if \<bar>x\<bar> < float64_overflow then Finite x else Infinite)"

text \<open>\<^verbatim>\<open>ys /= integral\<close> and \<^verbatim>\<open>ys *= norm\<close> on one entry of a finite curve.\<close>

fun np_truediv :: "real \<Rightarrow> npfloat \<Rightarrow> npfloat" where
  "np_truediv y (Finite d) =
     (if d \<noteq> 0 then np_float64 (y / d) else if y = 0 then NaN else Infinite)"
| "np_truediv y Infinite = Finite 0"
| "np_truediv y NaN = NaN"

fun np_multiply :: "npfloat \<Rightarrow> real \<Rightarrow> npfloat" where
  "np_multiply (Finite y) c = np_float64 (y * c)"
| "np_multiply Infinite c = (if c = 0 then NaN else Infinite)"
| "np_multiply NaN c = NaN"

text \<open>
  The loop of \<^verbatim>\<open>sample_pdf\<close>: every point is written to the variable and the curve,
  computed once before the loop, is read at the point. \<open>interpolate\<close> stands for
  \<^verbatim>\<open>curve.interpolate\<close>.
\<close>

fun sample_loop ::
  "(real \<Rightarrow> real) \<Rightarrow> roo_real_var \<Rightarrow> real list \<Rightarrow> roo_real_var \<times> real list \<times> real list" where
  "sample_loop interpolate variable [] = (variable, [], [])"
| "sample_loop interpolate variable (x # rest) =
     (case sample_loop interpolate (setVal x variable) rest of
        (variable', xs, ys) \<Rightarrow> (variable', x # xs, interpolate x # ys))"

text \<open>
  \<^verbatim>\<open>sample_pdf\<close>. The integral is the trapezoidal sum of the sampled curve, taken as one
  operation: it is the exact sum when that is a double and an infinity when the
  exact sum overflows. Then every y-value is divided by the integral and multiplied
  by the target.
\<close>

definition sample_pdf ::
  "int \<Rightarrow> (real \<Rightarrow> real) \<Rightarrow> roo_real_var \<Rightarrow> real option \<Rightarrow>
   py_error + (roo_real_var \<times> real list \<times> npfloat list)" where
  "sample_pdf sampling_steps interpolate variable norm' =
     (case np_linspace (getMin variable) (getMax variable) sampling_steps of
        Inl e \<Rightarrow> Inl e
      | Inr points \<Rightarrow>
          (case sample_loop interpolate variable points of
             (variable', xs, ys) \<Rightarrow>
               (case norm' of
                  None \<Rightarrow> Inr (variable', xs, map Finite ys)
                | Some target \<Rightarrow>
                    (let integral = np_float64 (trapz ys xs)
                     in Inr (variable', xs,
                             map (\<lambda>y. np_multiply (np_truediv y integral) target) ys)))))"

subsection \<open>Collections used as examples\<close>

text \<open>
  \<open>one_scalar\<close> is a new collection after \<^verbatim>\<open>add_param('x', 1.0)\<close>; \<open>readded\<close> is
  \<open>one_scalar\<close> after a second \<^verbatim>\<open>add_param('x', 2.0)\<close>; \<open>clobbered\<close> is \<open>one_scalar\<close> after
  the assignment \<^verbatim>\<open>params.x = 'abc'\<close>.
\<close>

definition one_scalar :: fit_parameters where
  "one_scalar = projr (add_param init ''x'' [PFloat 1])"

definition readded :: fit_parameters where
  "readded = projr (add_param one_scalar ''x'' [PFloat 2])"

definition clobbered :: fit_parameters where
  "clobbered = projr (setattr one_scalar ''x'' (PStr ''abc''))"

text \<open>
  \<open>unwrapped\<close> is \<open>one_scalar\<close> after \<^verbatim>\<open>params.x = params.x.var\<close>: the name holds the engine
  variable itself instead of the wrapper. \<open>renumbered\<close> is \<open>one_scalar\<close> after
  \<^verbatim>\<open>params.x = np.float64(2.0)\<close>.
\<close>

definition renumbered :: fit_parameters where
  "renumbered = projr (setattr one_scalar ''x'' (PNumpy 2))"

definition unwrapped :: fit_parameters where
  "unwrapped = projr (setattr one_scalar ''x'' (PRooRealVar 0))"


definition ranged :: fit_parameters where
  "ranged = projr (add_param init ''x'' [PFloat 1, PFloat 0, PFloat 2])"

text \<open>
  \<open>mixed\<close> is \<open>one_scalar\<close> after \<^verbatim>\<open>add_category('c', [0, 1, 0])\<close>, \<^verbatim>\<open>add_param('y', 3.0)\<close> and
  \<^verbatim>\<open>params.y = 'abc'\<close>: a scalar, a category, and a tracked name that holds a string.
\<close>

definition mixed :: fit_parameters where
  "mixed =
     projr (setattr (projr (add_param (projr (add_category one_scalar ''c'' [0, 1, 0]))
                              ''y'' [PFloat 3]))
              ''y'' (PStr ''abc''))"

text \<open>
  A curve that is zero everywhere, a curve that is \<open>10\<^sup>3\<^sup>0\<^sup>8\<close> everywhere, the curve
  \<open>y = x\<close>, and a variable \<^verbatim>\<open>x\<close> with the range \<open>[0, 10]\<close>.
\<close>

definition flat_curve :: "real \<Rightarrow> real" where
  "flat_curve x = 0"



definition interval_var :: roo_real_var where
  "interval_var = mk_range_var ''x'' ''x'' 0 10 []"

text \<open>What \<^verbatim>\<open>r\<close> exports for a stored value, if anything.\<close>

fun exported :: "pyval \<Rightarrow> pyval option" where
  "exported (PRealVar a) = Some (PRooRealVar a)"
| "exported (PRooCategory c) = Some (PRooCategory c)"
| "exported v = None"



section \<open>Properties\<close>

subsection \<open>The constructor and \<^verbatim>\<open>add_param\<close>\<close>

lemma RooRealVar_value:
  "as_double v = Some x \<Longrightarrow> RooRealVar n t [v] = Inr (mk_value_var n t x [])"
  by (cases v) (simp_all add: RooRealVar_def split_unit_def)


text \<open>
  The assignment of a value that is neither an \<^verbatim>\<open>int\<close> nor a \<^verbatim>\<open>float\<close> to a name that is
  stored or assignable: the name is bound to the value, and the warning is printed
  unless the name is new to the instance and to the class.
\<close>

lemma dunder_names:
  "is_dunder ''__class__''" "is_dunder ''__dict__''" "is_dunder ''__weakref__''"
  by (simp_all add: is_dunder_def)

lemma not_class_attributes:
  "''__class__'' \<notin> set class_attributes" "''__dict__'' \<notin> set class_attributes"
  "''__weakref__'' \<notin> set class_attributes"
  by (simp_all add: class_attributes_def)

lemma assignable_cases:
  assumes "assignable name"
  shows "name \<noteq> ''r''" "name \<noteq> ''param_list''" "name \<noteq> ''__class__''"
    "name \<noteq> ''__dict__''" "name \<noteq> ''__weakref__''"
    "is_dunder name \<Longrightarrow> name \<in> set class_attributes"
  using assms dunder_names not_class_attributes unfolding assignable_def by blast+

lemma setattr_rebinds:
  assumes "\<not> is_int_or_float v" and "attrs s name \<noteq> None \<or> assignable name"
  shows "setattr s name v =
     Inr (s\<lparr>out := (if attrs s name = None \<and> name \<notin> set class_attributes then out s
                    else out s @ [override_warning name]),
            attrs := (attrs s)(name \<mapsto> v)\<rparr>)"
proof (cases "attrs s name")
  case None
  with assms(2) have "assignable name" by simp
  note a = assignable_cases [OF this]
  show ?thesis
  proof (cases "name \<in> set class_attributes")
    case True
    then show ?thesis
      using assms(1) None a(1-5) by (simp add: setattr_def)
  next
    case False
    with a(6) have "\<not> is_dunder name" by blast
    then show ?thesis
      using assms(1) None a(1-5) False by (simp add: setattr_def)
  qed
next
  case (Some cur)
  then show ?thesis
    using assms(1) by (simp add: setattr_def)
qed

lemma add_param_Inr:
  assumes "RooRealVar name name args = Inr var"
    and "attrs s name \<noteq> None \<or> assignable name"
  shows "add_param s name args =
     Inr (s\<lparr>realvars := (realvars s)(next_addr s := var),
            next_addr := Suc (next_addr s),
            param_list := finsert name (param_list s),
            out := (if attrs s name = None \<and> name \<notin> set class_attributes then out s
                    else out s @ [override_warning name]),
            attrs := (attrs s)(name \<mapsto> PRealVar (next_addr s))\<rparr>)"
proof -
  let ?s2 = "s\<lparr>realvars := (realvars s)(next_addr s := var), next_addr := Suc (next_addr s),
      param_list := finsert name (param_list s)\<rparr>"
  have "attrs ?s2 name \<noteq> None \<or> assignable name"
    using assms(2) by simp
  from setattr_rebinds [OF _ this, of "PRealVar (next_addr s)"]
  show ?thesis
    using assms(1) by (simp add: add_param_def Let_def)
qed

lemma plain_names:
  "assignable ''x''" "assignable ''y''" "assignable ''c''" "assignable ''m''"
  "assignable ''foo''"
  "''x'' \<notin> set class_attributes" "''y'' \<notin> set class_attributes"
  "''c'' \<notin> set class_attributes" "''m'' \<notin> set class_attributes"
  "''foo'' \<notin> set class_attributes"
  by (simp_all add: assignable_def is_dunder_def class_attributes_def)

lemma add_param_Inl:
  "RooRealVar name name args = Inl e \<Longrightarrow> add_param s name args = Inl e"
  by (simp add: add_param_def)

subsection \<open>The example collections\<close>

lemma init_fields:
  "param_list init = {||}" "attrs init = Map.empty" "next_addr init = 0" "out init = []"
  by (simp_all add: init_def)

lemma one_scalar_fields:
  "param_list one_scalar = {|''x''|}" "attrs one_scalar = [''x'' \<mapsto> PRealVar 0]"
  "next_addr one_scalar = 1" "out one_scalar = []"
  "realvars one_scalar 0 = mk_value_var ''x'' ''x'' 1 []"
  by (simp_all add: one_scalar_def add_param_Inr [OF RooRealVar_value] init_fields plain_names)

lemma readded_fields:
  "param_list readded = {|''x''|}" "attrs readded = [''x'' \<mapsto> PRealVar 1]"
  "next_addr readded = 2" "out readded = [override_warning ''x'']"
  "realvars readded 0 = mk_value_var ''x'' ''x'' 1 []"
  "realvars readded 1 = mk_value_var ''x'' ''x'' 2 []"
  by (simp_all add: readded_def add_param_Inr [OF RooRealVar_value] one_scalar_fields plain_names)

lemma clobbered_fields:
  "param_list clobbered = {|''x''|}" "attrs clobbered = [''x'' \<mapsto> PStr ''abc'']"
  "out clobbered = [override_warning ''x'']"
  by (simp_all add: clobbered_def setattr_def one_scalar_fields)

lemma unwrapped_fields:
  "param_list unwrapped = {|''x''|}" "attrs unwrapped = [''x'' \<mapsto> PRooRealVar 0]"
  "out unwrapped = [override_warning ''x'']"
  by (simp_all add: unwrapped_def setattr_def one_scalar_fields)

lemma renumbered_fields:
  "param_list renumbered = {|''x''|}" "attrs renumbered = [''x'' \<mapsto> PNumpy 2]"
  "out renumbered = [override_warning ''x'']"
  "realvars renumbered 0 = mk_value_var ''x'' ''x'' 1 []"
  by (simp_all add: renumbered_def setattr_def one_scalar_fields)

lemma add_category_Inr:
  assumes "attrs s name \<noteq> None \<or> assignable name"
  shows "add_category s name vals =
     Inr (s\<lparr>categories := (categories s)(next_addr s :=
              fold (\<lambda>val c. defineType (show_int val) val c) (pd_unique vals)
                (RooCategory name name)),
            next_addr := Suc (next_addr s),
            param_list := finsert name (param_list s),
            out := (if attrs s name = None \<and> name \<notin> set class_attributes then out s
                    else out s @ [override_warning name]),
            attrs := (attrs s)(name \<mapsto> PRooCategory (next_addr s))\<rparr>)"
proof -
  let ?cat = "fold (\<lambda>val c. defineType (show_int val) val c) (pd_unique vals)
      (RooCategory name name)"
  let ?s2 = "s\<lparr>categories := (categories s)(next_addr s := ?cat),
      next_addr := Suc (next_addr s), param_list := finsert name (param_list s)\<rparr>"
  have "attrs ?s2 name \<noteq> None \<or> assignable name"
    using assms by simp
  from setattr_rebinds [OF _ this, of "PRooCategory (next_addr s)"]
  show ?thesis
    by (simp add: add_category_def Let_def)
qed

lemma mixed_fields:
  "param_list mixed = {|''y'', ''c'', ''x''|}"
  "attrs mixed ''x'' = Some (PRealVar 0)"
  "attrs mixed ''c'' = Some (PRooCategory 1)"
  "attrs mixed ''y'' = Some (PStr ''abc'')"
  by (simp_all add: mixed_def add_category_Inr add_param_Inr [OF RooRealVar_value]
      setattr_def one_scalar_fields plain_names)

lemma ranged_fields:
  "param_list ranged = {|''x''|}" "attrs ranged ''x'' = Some (PRealVar 0)"
  "realvars ranged 0 = mk_full_var ''x'' ''x'' 1 0 2 []"
  by (simp_all add: ranged_def add_param_Inr [of _ _ "mk_full_var ''x'' ''x'' 1 0 2 []"]
      RooRealVar_def split_unit_def init_fields plain_names)

subsection \<open>Adding a name that is already tracked\<close>

text \<open>
  Claim C1 says that \<^verbatim>\<open>add_param(name, v)\<close> on a tracked name mutates the existing
  parameter's value to \<open>v\<close> in place, does not replace the stored entity, and leaves the
  number of tracked names unchanged. On the collection that holds \<^verbatim>\<open>x = 1.0\<close>,
  \<^verbatim>\<open>add_param('x', 2.0)\<close> rebinds \<^verbatim>\<open>x\<close> from the entity at address 0 to a new entity at
  address 1, and the entity at address 0 keeps its value 1: \<^verbatim>\<open>add_param\<close> always
  builds a new wrapper, and \<^verbatim>\<open>__setattr__\<close> updates in place only for an \<^verbatim>\<open>int\<close> or a
  \<^verbatim>\<open>float\<close>.
\<close>

theorem add_param_again_counterexample:
  "''x'' |\<in>| param_list one_scalar \<and>
   add_param one_scalar ''x'' [PFloat 2] = Inr readded \<and>
   attrs one_scalar ''x'' = Some (PRealVar 0) \<and>
   attrs readded ''x'' = Some (PRealVar 1) \<and>
   getVal (realvars readded 0) = 1"
  by (simp add: one_scalar_fields readded_fields readded_def add_param_Inr [OF RooRealVar_value]
      getVal_def mk_value_var_def plain_names)

text \<open>
  Claim C1 as amended: for a tracked name with a stored entity and a number \<open>v\<close>,
  \<^verbatim>\<open>add_param(name, v)\<close> succeeds, binds the name to a newly allocated constant scalar
  of value \<open>v\<close>, leaves every entity that existed before untouched, prints the
  override warning, and leaves the tracked names, hence their number, unchanged.
\<close>

theorem add_param_tracked_replaces:
  assumes "name |\<in>| param_list s" and "attrs s name = Some old" and "as_double v = Some x"
  shows "\<exists>s'. add_param s name [v] = Inr s' \<and>
           attrs s' name = Some (PRealVar (next_addr s)) \<and>
           realvars s' (next_addr s) = mk_value_var name name x [] \<and>
           getVal (realvars s' (next_addr s)) = x \<and>
           (\<forall>a. a \<noteq> next_addr s \<longrightarrow> realvars s' a = realvars s a) \<and>
           param_list s' = param_list s \<and>
           fcard (param_list s') = fcard (param_list s) \<and>
           out s' = out s @ [override_warning name]"
proof -
  have tracked: "finsert name (param_list s) = param_list s"
    using assms(1) by (simp add: finsert_absorb)
  have stored: "attrs s name \<noteq> None \<or> assignable name"
    using assms(2) by simp
  show ?thesis
    using assms(2)
    by (simp add: add_param_Inr [OF RooRealVar_value [OF assms(3)] stored] tracked
        getVal_def mk_value_var_def)
qed

text \<open>The amended claim C1 at \<^verbatim>\<open>add_param('x', 2.0)\<close> on the collection holding \<^verbatim>\<open>x = 1.0\<close>.\<close>

theorem add_param_tracked_replaces_witness:
  "''x'' |\<in>| param_list one_scalar \<and> attrs one_scalar ''x'' = Some (PRealVar 0) \<and>
   as_double (PFloat 2) = Some 2 \<and>
   (\<exists>s'. add_param one_scalar ''x'' [PFloat 2] = Inr s' \<and>
      attrs s' ''x'' = Some (PRealVar 1) \<and>
      getVal (realvars s' 1) = 2 \<and>
      realvars s' 0 = realvars one_scalar 0 \<and>
      fcard (param_list s') = 1 \<and>
      out s' = [override_warning ''x''])"
  using add_param_tracked_replaces
          [where name = "''x''" and s = one_scalar and old = "PRealVar 0" and v = "PFloat 2"
             and x = 2]
  by (auto simp: one_scalar_fields fcard_finsert_if)

subsection \<open>Assignment to a tracked name\<close>

text \<open>
  Claim C2 says that for every tracked name the assignment of a numeric value updates
  the stored parameter's value in place and does not replace the entity. The test in
  \<^verbatim>\<open>__setattr__\<close> is \<^verbatim>\<open>type(value) in [int, float]\<close>, which a numpy scalar fails: on the
  collection that holds the scalar \<^verbatim>\<open>x = 1.0\<close>, \<^verbatim>\<open>params.x = np.float64(2.0)\<close> prints the
  warning and binds \<^verbatim>\<open>x\<close> to the numpy scalar, and the scalar parameter keeps its
  value 1. Moreover the in-place branch calls \<^verbatim>\<open>setVal\<close> on whatever is stored: for a
  tracked name that holds a string (after \<^verbatim>\<open>params.x = 'abc'\<close>) or a category,
  \<^verbatim>\<open>params.x = 2\<close> raises \<^verbatim>\<open>AttributeError\<close> and updates nothing.
\<close>

theorem setattr_numeric_counterexample:
  "''x'' |\<in>| param_list one_scalar \<and>
   attrs one_scalar ''x'' = Some (PRealVar 0) \<and>
   setattr one_scalar ''x'' (PNumpy 2) = Inr renumbered \<and>
   attrs renumbered ''x'' = Some (PNumpy 2) \<and>
   getVal (realvars renumbered 0) = 1 \<and>
   out renumbered = [override_warning ''x''] \<and>
   ''x'' |\<in>| param_list clobbered \<and>
   attrs clobbered ''x'' = Some (PStr ''abc'') \<and>
   setattr clobbered ''x'' (PInt 2) = Inl AttributeError \<and>
   ''c'' |\<in>| param_list mixed \<and>
   attrs mixed ''c'' = Some (PRooCategory 1) \<and>
   setattr mixed ''c'' (PInt 1) = Inl AttributeError"
proof -
  have "setattr one_scalar ''x'' (PNumpy 2) = Inr renumbered"
    by (simp add: renumbered_def setattr_def one_scalar_fields)
  then show ?thesis
    by (simp add: one_scalar_fields renumbered_fields clobbered_fields mixed_fields
        getVal_def mk_value_var_def)
       (simp add: setattr_def clobbered_fields mixed_fields)
qed

text \<open>
  Claim C2 as amended: for a tracked name whose stored entity is a scalar parameter (a
  wrapper), the assignment of a value whose type is \<^verbatim>\<open>int\<close> or \<^verbatim>\<open>float\<close> succeeds, leaves
  every binding as it was, so that the entity is not replaced, sets the value of that
  entity through its \<^verbatim>\<open>setVal\<close>, touches no other entity and prints nothing; for a
  tracked name with any stored entity, the assignment of a value of any other type
  succeeds, binds the name to that value and prints the override warning.
\<close>

theorem setattr_tracked:
  "(name |\<in>| param_list s \<and> attrs s name = Some (PRealVar a) \<and> is_int_or_float v \<longrightarrow>
      (\<exists>s'. setattr s name v = Inr s' \<and>
         attrs s' = attrs s \<and>
         realvars s' a = setVal (the (as_double v)) (realvars s a) \<and>
         getVal (realvars s' a) = the (as_double v) \<and>
         (\<forall>b. b \<noteq> a \<longrightarrow> realvars s' b = realvars s b) \<and>
         param_list s' = param_list s \<and>
         out s' = out s)) \<and>
   (name |\<in>| param_list s \<and> attrs s name = Some old \<and> \<not> is_int_or_float v \<longrightarrow>
      (\<exists>s'. setattr s name v = Inr s' \<and>
         attrs s' = (attrs s)(name \<mapsto> v) \<and>
         out s' = out s @ [override_warning name] \<and>
         param_list s' = param_list s \<and>
         realvars s' = realvars s))"
  by (simp add: setattr_def setVal_def getVal_def)

text \<open>
  The amended claim C2 on the collection holding \<^verbatim>\<open>x = 1.0\<close>, at \<^verbatim>\<open>params.x = 7\<close> and at
  \<^verbatim>\<open>params.x = 'abc'\<close>.
\<close>

theorem setattr_tracked_witness:
  "''x'' |\<in>| param_list one_scalar \<and> attrs one_scalar ''x'' = Some (PRealVar 0) \<and>
   is_int_or_float (PInt 7) \<and> \<not> is_int_or_float (PStr ''abc'') \<and>
   (\<exists>s'. setattr one_scalar ''x'' (PInt 7) = Inr s' \<and>
      attrs s' ''x'' = Some (PRealVar 0) \<and> getVal (realvars s' 0) = 7 \<and> out s' = []) \<and>
   (\<exists>s'. setattr one_scalar ''x'' (PStr ''abc'') = Inr s' \<and>
      attrs s' ''x'' = Some (PStr ''abc'') \<and> out s' = [override_warning ''x''])"
proof -
  have num: "''x'' |\<in>| param_list one_scalar \<and> attrs one_scalar ''x'' = Some (PRealVar 0) \<and>
      is_int_or_float (PInt 7)"
    by (simp add: one_scalar_fields)
  have other: "''x'' |\<in>| param_list one_scalar \<and> attrs one_scalar ''x'' = Some (PRealVar 0) \<and>
      \<not> is_int_or_float (PStr ''abc'')"
    by (simp add: one_scalar_fields)
  from setattr_tracked [where name = "''x''" and s = one_scalar and a = 0 and v = "PInt 7"] num
  obtain s1 where s1: "setattr one_scalar ''x'' (PInt 7) = Inr s1" "attrs s1 = attrs one_scalar"
      "getVal (realvars s1 0) = the (as_double (PInt 7))" "out s1 = out one_scalar"
    by blast
  from setattr_tracked [where name = "''x''" and s = one_scalar and old = "PRealVar 0"
      and v = "PStr ''abc''"] other
  obtain s2 where s2: "setattr one_scalar ''x'' (PStr ''abc'') = Inr s2"
      "attrs s2 = (attrs one_scalar)(''x'' \<mapsto> PStr ''abc'')"
      "out s2 = out one_scalar @ [override_warning ''x'']"
    by blast
  have "attrs s1 ''x'' = Some (PRealVar 0) \<and> getVal (realvars s1 0) = 7 \<and> out s1 = []"
    using s1 by (simp add: one_scalar_fields)
  moreover have "attrs s2 ''x'' = Some (PStr ''abc'') \<and> out s2 = [override_warning ''x'']"
    using s2 by (simp add: one_scalar_fields)
  ultimately show ?thesis
    using num other s1(1) s2(1) by blast
qed

subsection \<open>Removal\<close>






subsection \<open>Observables\<close>


















subsection \<open>Export\<close>

text \<open>
  When every name in the list has a stored value, the loop of \<^verbatim>\<open>r\<close> ends normally and
  has set exactly the attributes of the names whose stored value is exported.
\<close>

lemma r_loop_Inr:
  "\<forall>n \<in> set ns. attrs s n \<noteq> None \<Longrightarrow>
   r_loop s ns params =
     Inr (\<lambda>n. if n \<in> set ns \<and> Option.bind (attrs s n) exported \<noteq> None
              then Option.bind (attrs s n) exported else params n)"
proof (induction ns arbitrary: params)
  case Nil
  then show ?case by simp
next
  case (Cons name ns)
  then obtain v where v: "attrs s name = Some v" by auto
  from Cons.prems have rest: "\<forall>n \<in> set ns. attrs s n \<noteq> None" by simp
  show ?case
    by (cases v) (auto simp: v Cons.IH [OF rest] fun_eq_iff)
qed

lemma r_Inr:
  assumes "\<forall>n. n |\<in>| param_list s \<longrightarrow> attrs s n \<noteq> None"
  shows "r s = Inr (\<lambda>n. if n |\<in>| param_list s then Option.bind (attrs s n) exported else None)"
proof -
  have "\<forall>n \<in> set (sorted_list_of_fset (param_list s)). attrs s n \<noteq> None"
    using assms by (simp add: sorted_list_of_fset_simps)
  then show ?thesis
    by (auto simp: r_def r_loop_Inr sorted_list_of_fset_simps fun_eq_iff)
qed

text \<open>A tracked name that has no stored value makes \<^verbatim>\<open>getattr\<close> raise.\<close>

lemma r_loop_Inl:
  "\<exists>n \<in> set ns. attrs s n = None \<Longrightarrow> r_loop s ns params = Inl AttributeError"
proof (induction ns arbitrary: params)
  case Nil
  then show ?case by simp
next
  case (Cons name ns)
  show ?case
  proof (cases "attrs s name")
    case None
    then show ?thesis by simp
  next
    case (Some v)
    with Cons.prems have "\<exists>n \<in> set ns. attrs s n = None" by auto
    then show ?thesis by (cases v) (simp_all add: Some Cons.IH)
  qed
qed

subsection \<open>The entries of the export\<close>

text \<open>
  Claim C7 says that for every collection state the entries of \<^verbatim>\<open>r\<close> are exactly the
  tracked names. After \<^verbatim>\<open>params.x = 'abc'\<close> the name \<^verbatim>\<open>x\<close> is tracked and holds a string;
  \<^verbatim>\<open>r\<close> returns normally and has no entry \<^verbatim>\<open>x\<close>, because its loop sets an attribute only
  for a wrapper and for a category. After \<^verbatim>\<open>params.x = params.x.var\<close> the name holds an
  engine variable that is not wrapped, and \<^verbatim>\<open>r\<close> has no entry for it either.
\<close>

theorem r_entries_counterexample:
  "''x'' |\<in>| param_list clobbered \<and>
   \<not> isl (r clobbered) \<and>
   projr (r clobbered) ''x'' = None \<and>
   ''x'' |\<in>| param_list unwrapped \<and>
   attrs unwrapped ''x'' = Some (PRooRealVar 0) \<and>
   \<not> isl (r unwrapped) \<and>
   projr (r unwrapped) ''x'' = None"
proof -
  have "\<forall>n. n |\<in>| param_list clobbered \<longrightarrow> attrs clobbered n \<noteq> None"
    by (simp add: clobbered_fields)
  from r_Inr [OF this] have string: "''x'' |\<in>| param_list clobbered \<and>
      \<not> isl (r clobbered) \<and> projr (r clobbered) ''x'' = None"
    by (simp add: clobbered_fields)
  have "\<forall>n. n |\<in>| param_list unwrapped \<longrightarrow> attrs unwrapped n \<noteq> None"
    by (simp add: unwrapped_fields)
  from r_Inr [OF this] have "''x'' |\<in>| param_list unwrapped \<and>
      attrs unwrapped ''x'' = Some (PRooRealVar 0) \<and>
      \<not> isl (r unwrapped) \<and> projr (r unwrapped) ''x'' = None"
    by (simp add: unwrapped_fields)
  with string show ?thesis by simp
qed

text \<open>
  Claim C7 as amended: whenever every tracked name has a stored value, \<^verbatim>\<open>r\<close> returns a
  view whose entries are exactly the tracked names whose stored value is a scalar
  parameter or a category; a scalar's name is mapped to the engine variable it wraps
  and a category's name to the category, and there is no other entry.
\<close>

theorem r_entries:
  assumes "\<forall>n. n |\<in>| param_list s \<longrightarrow> attrs s n \<noteq> None"
  shows "\<exists>view. r s = Inr view \<and>
           (\<forall>n. view n =
              (if n |\<in>| param_list s then Option.bind (attrs s n) exported else None)) \<and>
           dom view = {n. n |\<in>| param_list s \<and> Option.bind (attrs s n) exported \<noteq> None}"
proof -
  let ?view = "\<lambda>n. if n |\<in>| param_list s then Option.bind (attrs s n) exported else None"
  have "r s = Inr ?view"
    using assms by (rule r_Inr)
  moreover have "dom ?view = {n. n |\<in>| param_list s \<and> Option.bind (attrs s n) exported \<noteq> None}"
    by (auto simp: dom_def)
  ultimately show ?thesis by blast
qed

text \<open>
  The amended claim C7 on a collection with a scalar \<^verbatim>\<open>x\<close>, a category \<^verbatim>\<open>c\<close> and a
  tracked name \<^verbatim>\<open>y\<close> that holds a string: the entries are \<^verbatim>\<open>x\<close> and \<^verbatim>\<open>c\<close>.
\<close>

theorem r_entries_witness:
  "\<exists>view. r mixed = Inr view \<and>
     view ''x'' = Some (PRooRealVar 0) \<and>
     view ''c'' = Some (PRooCategory 1) \<and>
     view ''y'' = None \<and>
     view ''z'' = None \<and>
     ''y'' |\<in>| param_list mixed \<and>
     dom view = {''x'', ''c''}"
proof -
  have stored: "\<forall>n. n |\<in>| param_list mixed \<longrightarrow> attrs mixed n \<noteq> None"
    by (auto simp: mixed_fields)
  from r_entries [OF stored] obtain view where view: "r mixed = Inr view"
      "\<And>n. view n =
         (if n |\<in>| param_list mixed then Option.bind (attrs mixed n) exported else None)"
      "dom view = {n. n |\<in>| param_list mixed \<and> Option.bind (attrs mixed n) exported \<noteq> None}"
    by blast
  have "dom view = {''x'', ''c''}"
    unfolding view(3) by (auto simp: mixed_fields)
  moreover have "view ''x'' = Some (PRooRealVar 0)" "view ''c'' = Some (PRooCategory 1)"
      "view ''y'' = None" "view ''z'' = None" "''y'' |\<in>| param_list mixed"
    by (simp_all add: view(2) mixed_fields)
  ultimately show ?thesis using view(1) by blast
qed

subsection \<open>Rendering\<close>

text \<open>
  Claim C4 says that the rendering appends to the name of a scalar that is not
  constant its bounds. For the collection after \<^verbatim>\<open>add_param('x', 1.0, 0.0, 2.0)\<close>, whose
  scalar is not constant and has the bounds 0 and 2, the rendering is the header and
  the line \<^verbatim>\<open>x\<close>, without bounds, whatever the number format: the scalar is stored
  as a wrapper and the bounds are appended only when the type of the stored value is
  \<^verbatim>\<open>RooRealVar\<close> itself.
\<close>

theorem repr_without_bounds:
  "\<not> isConstant (realvars ranged 0) \<and>
   getMin (realvars ranged 0) = 0 \<and> getMax (realvars ranged 0) = 2 \<and>
   repr g2 ranged =
     Inr (''Parameter collection'' @ newline @ ''1 parameters:'' @ newline @ ''x'')"
  by (simp add: repr_def repr_entry_def ranged_fields sorted_list_of_fset.rep_eq
      fcard_finsert_if fcard_fempty isConstant_def getMin_def getMax_def mk_full_var_def)

subsection \<open>The curve sampler\<close>

lemma sample_loop_eq:
  "sample_loop f variable points =
     (foldl (\<lambda>v x. setVal x v) variable points, points, map f points)"
  by (induction points arbitrary: variable) simp_all


lemma float64_overflow_pos: "0 < float64_overflow"
  by (simp add: float64_overflow_def)

lemma np_float64_zero: "np_float64 0 = Finite 0"
  by (simp add: np_float64_def float64_overflow_pos)

lemma sample_pdf_Some:
  assumes "np_linspace (getMin variable) (getMax variable) n = Inr xs"
  shows "sample_pdf n f variable (Some target) =
     Inr (foldl (\<lambda>v x. setVal x v) variable xs, xs,
          map (\<lambda>y. np_multiply (np_truediv y (np_float64 (trapz (map f xs) xs))) target)
            (map f xs))"
  using assms by (simp add: sample_pdf_def sample_loop_eq Let_def)

lemma linspace_example: "np_linspace 0 10 3 = Inr [0, 5, 10]"
  by (simp add: np_linspace_def upt_rec)

lemma interval_points:
  "np_linspace (getMin interval_var) (getMax interval_var) 3 = Inr [0, 5, 10]"
  by (simp add: interval_var_def getMin_def getMax_def mk_range_var_def linspace_example)

lemma interval_last:
  "foldl (\<lambda>v x. setVal x v) interval_var [0, 5, 10] = setVal 10 interval_var"
  by (simp add: setVal_def)




text \<open>
  Claim C3 says that a zero integral makes the division a fatal error that reaches the
  caller. For the curve that is zero everywhere on \<open>[0, 10]\<close>, three points and the
  target 1, the integral is zero and the sampler returns normally, with \<^verbatim>\<open>nan\<close> for
  every y-value: \<^verbatim>\<open>sample_pdf\<close> has no test of the integral and numpy's division of an
  array does not raise.
\<close>

theorem sample_pdf_zero_integral_counterexample:
  "trapz (map flat_curve [0, 5, 10]) [0, 5, 10] = 0 \<and>
   sample_pdf 3 flat_curve interval_var (Some 1) =
     Inr (setVal 10 interval_var, [0, 5, 10], [NaN, NaN, NaN])"
proof -
  have area: "trapz (map flat_curve [0, 5, 10]) [0, 5, 10] = 0"
    by (simp add: flat_curve_def)
  have "sample_pdf 3 flat_curve interval_var (Some 1) =
      Inr (setVal 10 interval_var, [0, 5, 10],
           map (\<lambda>y. np_multiply (np_truediv y (Finite 0)) 1) (map flat_curve [0, 5, 10]))"
    by (simp only: sample_pdf_Some [OF interval_points] area np_float64_zero interval_last)
  then have "sample_pdf 3 flat_curve interval_var (Some 1) =
      Inr (setVal 10 interval_var, [0, 5, 10], [NaN, NaN, NaN])"
    by (simp add: flat_curve_def)
  with area show ?thesis
    by blast
qed

text \<open>
  Claim C3 as amended: when a normalisation target is given and the trapezoidal
  integral of the sampled curve is zero, the sampler raises nothing; it returns the
  sample points and as many y-values, none of which is finite (each is \<^verbatim>\<open>nan\<close> or an
  infinity).
\<close>

theorem sample_pdf_zero_integral:
  assumes "np_linspace (getMin variable) (getMax variable) n = Inr xs"
    and "trapz (map f xs) xs = 0"
  shows "\<exists>variable' ys. sample_pdf n f variable (Some target) = Inr (variable', xs, ys) \<and>
           length ys = length xs \<and> list_all (\<lambda>y. y = NaN \<or> y = Infinite) ys"
proof -
  have res: "sample_pdf n f variable (Some target) =
      Inr (foldl (\<lambda>v x. setVal x v) variable xs, xs,
           map (\<lambda>y. np_multiply (np_truediv y (Finite 0)) target) (map f xs))"
    by (simp add: sample_pdf_Some [OF assms(1)] assms(2) np_float64_zero)
  have "list_all (\<lambda>y. y = NaN \<or> y = Infinite)
      (map (\<lambda>y. np_multiply (np_truediv y (Finite 0)) target) (map f xs))"
    by (simp add: list_all_iff)
  then show ?thesis
    using res by auto
qed

text \<open>The amended claim C3 for the curve that is zero everywhere on \<open>[0, 10]\<close>.\<close>

theorem sample_pdf_zero_integral_witness:
  "np_linspace (getMin interval_var) (getMax interval_var) 3 = Inr [0, 5, 10] \<and>
   trapz (map flat_curve [0, 5, 10]) [0, 5, 10] = 0 \<and>
   (\<exists>variable' ys. sample_pdf 3 flat_curve interval_var (Some 1) =
        Inr (variable', [0, 5, 10], ys) \<and>
      length ys = 3 \<and> list_all (\<lambda>y. y = NaN \<or> y = Infinite) ys)"
proof -
  have pts: "np_linspace (getMin interval_var) (getMax interval_var) 3 = Inr [0, 5, 10]"
    by (rule interval_points)
  have area: "trapz (map flat_curve [0, 5, 10]) [0, 5, 10] = 0"
    by (simp add: flat_curve_def)
  from sample_pdf_zero_integral [OF pts area, of 1] pts area show ?thesis
    by auto
qed

subsection \<open>Template expansion\<close>



lemma set_itertools_product:
  "set (itertools_product xss) = {c. list_all2 (\<lambda>x xs. x \<in> set xs) c xss}"
  by (induction xss) (auto simp: list_all2_Cons2)










end
